theory Spec2Isabelle
  imports Complex_Main
begin

section \<open>The authentication context (src/src/contexts/auth-context.tsx)\<close>

subsection \<open>Data\<close>

text \<open>
  A run-time JavaScript value, as far as the provider and the sidebar look at one. The
  row of the table \<^verbatim>\<open>user_privileges\<close> is cast to the interface
  \<^verbatim>\<open>UserPrivileges\<close> without a check, so a privilege object is modelled as what
  it is at run time: a list of keys with values.
\<close>

datatype jsval = JBool bool | JNull | JNum int | JStr string

type_synonym UserPrivileges = "(string \<times> jsval) list"

text \<open>
  The \<^verbatim>\<open>User\<close> that \<^verbatim>\<open>createMockUser\<close> builds. The field
  \<^verbatim>\<open>id\<close> is written \<open>id'\<close>; \<open>created_at\<close> is the instant read from the
  clock (milliseconds), whose ISO text the source stores.
\<close>

record User =
  id' :: string
  email :: string
  aud :: string
  role :: string
  created_at :: nat
  app_metadata :: "(string \<times> jsval) list"
  user_metadata :: "(string \<times> jsval) list"

text \<open>
  The \<^verbatim>\<open>Session\<close> of \<^verbatim>\<open>createMockSession\<close>. Its field
  \<^verbatim>\<open>user\<close> is written \<open>user'\<close>. \<open>expires_at\<close> is
  \<^verbatim>\<open>Date.now() / 1000 + 3600\<close>, kept as an exact rational.
\<close>

record Session =
  access_token :: string
  refresh_token :: string
  expires_in :: nat
  expires_at :: rat
  token_type :: string
  user' :: User

text \<open>
  The text stored in local storage under a key. The source only ever stores
  \<^verbatim>\<open>JSON.stringify({ user, session })\<close> and reads it back with
  \<^verbatim>\<open>JSON.parse\<close>; such a text is represented by the pair it parses to.
  \<open>Blank\<close> is the empty string (falsy), \<open>Malformed\<close> any other text on
  which \<^verbatim>\<open>JSON.parse\<close> or the destructuring throws.
\<close>

datatype stored = Blank | Malformed | Serialized "User option" "Session option"

datatype error = Error string

type_synonym result = "error + unit"

text \<open>
  The reply of the query \<^verbatim>\<open>from('user_privileges').select('*').eq('user_id', id).single()\<close>:
  a row, an error object in the reply, or an exception thrown while awaiting.
\<close>

datatype priv_reply = Row UserPrivileges | Failed error | Thrown error

text \<open>
  The state of \<^verbatim>\<open>AuthProvider\<close> (its four \<^verbatim>\<open>useState\<close> cells)
  together with what its operations touch outside: local storage, the console, and the
  privilege lookups that were started and have not settled yet (by user id, oldest first).
\<close>

record auth_state =
  user :: "User option"
  session :: "Session option"
  privileges :: "UserPrivileges option"
  loading :: bool
  localStorage :: "string \<rightharpoonup> stored"
  console :: "string list"
  pending :: "string list"

subsection \<open>Constants and constructors\<close>

definition TEST_USER_email :: string where
  "TEST_USER_email = ''test@example.com''"

definition TEST_USER_password :: string where
  "TEST_USER_password = ''password123''"

definition createMockUser :: "nat \<Rightarrow> User" where
  "createMockUser now =
     \<lparr> id' = ''test-user-id-12345'',
       email = TEST_USER_email,
       aud = ''authenticated'',
       role = ''authenticated'',
       created_at = now,
       app_metadata = [],
       user_metadata = [] \<rparr>"

text \<open>
  \<^verbatim>\<open>createMockSession\<close> reads the clock (\<open>now\<close>) and then calls
  \<^verbatim>\<open>createMockUser\<close>, which reads it again (\<open>now_user\<close>).
\<close>

definition createMockSession :: "nat \<Rightarrow> nat \<Rightarrow> Session" where
  "createMockSession now now_user =
     \<lparr> access_token = ''mock-access-token'',
       refresh_token = ''mock-refresh-token'',
       expires_in = 3600,
       expires_at = of_nat now / 1000 + 3600,
       token_type = ''bearer'',
       user' = createMockUser now_user \<rparr>"

text \<open>The object literal that the source writes out four times.\<close>

definition all_privileges :: UserPrivileges where
  "all_privileges =
     [ (''can_add_expense'', JBool True),
       (''can_add_income'', JBool True),
       (''can_view_reports'', JBool True),
       (''can_upload_bills'', JBool True),
       (''can_download_reports'', JBool True) ]"

definition initial_state :: "(string \<rightharpoonup> stored) \<Rightarrow> auth_state" where
  "initial_state ls =
     \<lparr> user = None, session = None, privileges = None, loading = True,
       localStorage = ls, console = [], pending = [] \<rparr>"

subsection \<open>fetchPrivileges\<close>

text \<open>
  \<^verbatim>\<open>fetchPrivileges(userId)\<close>, from the reply of the lookup on: an error in the
  reply is logged and the default is set; a row is stored as it came; an exception is
  caught, logged, and the privileges are set to null. Nothing is rethrown.
\<close>

definition fetchPrivileges :: "string \<Rightarrow> (string \<Rightarrow> priv_reply) \<Rightarrow> auth_state \<Rightarrow> result \<times> auth_state" where
  "fetchPrivileges userId lookup st =
     (case lookup userId of
        Failed e \<Rightarrow>
          (Inr (), st\<lparr> console := console st @ [''Error fetching privileges:''],
                        privileges := Some all_privileges \<rparr>)
      | Row data \<Rightarrow> (Inr (), st\<lparr> privileges := Some data \<rparr>)
      | Thrown e \<Rightarrow>
          (Inr (), st\<lparr> console := console st @ [''Error in fetchPrivileges:''],
                        privileges := None \<rparr>))"

text \<open>
  What \<^verbatim>\<open>.single()\<close> replies for the rows that match: exactly one row is the
  data, none or several is an error in the reply.
\<close>

definition single :: "UserPrivileges list \<Rightarrow> priv_reply" where
  "single rows =
     (case rows of
        [r] \<Rightarrow> Row r
      | _ \<Rightarrow> Failed (Error ''JSON object requested, multiple (or no) rows returned''))"

subsection \<open>signIn, signUp, signOut\<close>

text \<open>
  Each operation takes \<open>TEST_MODE\<close> (the source fixes it to true), the readings of the
  clock it makes, and for the delegated mode the error of the remote reply. It returns
  what the promise settles to (\<open>Inl\<close> a rejection) and the state after it.
\<close>

definition signIn :: "bool \<Rightarrow> nat \<times> nat \<times> nat \<Rightarrow> error option \<Rightarrow> string \<Rightarrow> string \<Rightarrow> auth_state \<Rightarrow> result \<times> auth_state" where
  "signIn TEST_MODE clock remote_error email_in password_in st =
     (if TEST_MODE then
        (if email_in = TEST_USER_email \<and> password_in = TEST_USER_password then
           (let mockUser = createMockUser (fst clock);
                mockSession = createMockSession (fst (snd clock)) (snd (snd clock))
            in (Inr (),
                st\<lparr> user := Some mockUser,
                    session := Some mockSession,
                    privileges := Some all_privileges,
                    localStorage := (localStorage st)(''test_auth'' \<mapsto>
                       Serialized (Some mockUser) (Some mockSession)) \<rparr>))
         else (Inl (Error ''Invalid test credentials. Use test@example.com / password123''), st))
      else
        (case remote_error of
           Some e \<Rightarrow> (Inl e, st)
         | None \<Rightarrow> (Inr (), st)))"

definition signUp :: "bool \<Rightarrow> nat \<times> nat \<times> nat \<Rightarrow> error option \<Rightarrow> string \<Rightarrow> string \<Rightarrow> auth_state \<Rightarrow> result \<times> auth_state" where
  "signUp TEST_MODE clock remote_error email_in password_in st =
     (if TEST_MODE then
        (let mockUser = createMockUser (fst clock);
             mockSession = createMockSession (fst (snd clock)) (snd (snd clock))
         in (Inr (),
             st\<lparr> user := Some mockUser,
                 session := Some mockSession,
                 privileges := Some all_privileges,
                 localStorage := (localStorage st)(''test_auth'' \<mapsto>
                    Serialized (Some mockUser) (Some mockSession)) \<rparr>))
      else
        (case remote_error of
           Some e \<Rightarrow> (Inl e, st)
         | None \<Rightarrow> (Inr (), st)))"

definition signOut :: "bool \<Rightarrow> error option \<Rightarrow> auth_state \<Rightarrow> result \<times> auth_state" where
  "signOut TEST_MODE remote_error st =
     (if TEST_MODE then
        (Inr (),
         st\<lparr> localStorage := (localStorage st)(''test_auth'' := None),
             user := None,
             session := None,
             privileges := None \<rparr>)
      else
        (case remote_error of
           Some e \<Rightarrow> (Inl e, st)
         | None \<Rightarrow> (Inr (), st)))"

definition refreshPrivileges :: "(string \<Rightarrow> priv_reply) \<Rightarrow> auth_state \<Rightarrow> result \<times> auth_state" where
  "refreshPrivileges lookup st =
     (case user st of
        Some u \<Rightarrow> fetchPrivileges (id' u) lookup st
      | None \<Rightarrow> (Inr (), st))"

subsection \<open>The initialisation effect and the auth-state listener\<close>

text \<open>
  The effect at mount in test mode: a stored pair that parses sets user, session and the
  full privileges; a text that does not parse is logged and removed; then loading is
  set to false.
\<close>

definition init_local :: "auth_state \<Rightarrow> auth_state" where
  "init_local st =
     (let st1 =
        (case localStorage st ''test_auth'' of
           None \<Rightarrow> st
         | Some Blank \<Rightarrow> st
         | Some (Serialized u s) \<Rightarrow>
             st\<lparr> user := u, session := s, privileges := Some all_privileges \<rparr>
         | Some Malformed \<Rightarrow>
             st\<lparr> console := console st @ [''Error loading test auth:''],
                 localStorage := (localStorage st)(''test_auth'' := None) \<rparr>)
      in st1\<lparr> loading := False \<rparr>)"

text \<open>\<^verbatim>\<open>session?.user ?? null\<close>\<close>

definition session_user :: "Session option \<Rightarrow> User option" where
  "session_user so = (case so of None \<Rightarrow> None | Some s \<Rightarrow> Some (user' s))"

text \<open>
  The handlers call \<^verbatim>\<open>fetchPrivileges(session.user.id)\<close> without awaiting it:
  the call runs up to its first \<^verbatim>\<open>await\<close>, which sends the query, and returns
  a promise that nobody waits for. The rest of its body runs when the reply arrives
  (\<open>settle_privileges\<close>).
\<close>

definition start_fetchPrivileges :: "string \<Rightarrow> auth_state \<Rightarrow> auth_state" where
  "start_fetchPrivileges userId st = st\<lparr> pending := pending st @ [userId] \<rparr>"

definition settle_privileges :: "priv_reply \<Rightarrow> auth_state \<Rightarrow> auth_state" where
  "settle_privileges reply st =
     (case pending st of
        [] \<Rightarrow> st
      | userId # rest \<Rightarrow> snd (fetchPrivileges userId (\<lambda>_. reply) (st\<lparr> pending := rest \<rparr>)))"

text \<open>The callback of \<^verbatim>\<open>supabase.auth.getSession().then\<close>.\<close>

definition on_getSession :: "Session option \<Rightarrow> auth_state \<Rightarrow> auth_state" where
  "on_getSession so st =
     (let st1 = st\<lparr> session := so \<rparr>;
          st2 = st1\<lparr> user := session_user so \<rparr>;
          st3 = (case session_user so of
                   Some u \<Rightarrow> start_fetchPrivileges (id' u) st2
                 | None \<Rightarrow> st2)
      in st3\<lparr> loading := False \<rparr>)"

text \<open>The callback of \<^verbatim>\<open>supabase.auth.onAuthStateChange\<close>.\<close>

definition on_authStateChange :: "Session option \<Rightarrow> auth_state \<Rightarrow> auth_state" where
  "on_authStateChange so st =
     (let st1 = st\<lparr> session := so \<rparr>;
          st2 = st1\<lparr> user := session_user so \<rparr>;
          st3 = (case session_user so of
                   Some u \<Rightarrow> start_fetchPrivileges (id' u) st2
                 | None \<Rightarrow> st2\<lparr> privileges := None \<rparr>)
      in st3\<lparr> loading := False \<rparr>)"

text \<open>
  What can happen to the provider, one task of the event loop each: the effect at mount,
  the two replies of the remote service, a privilege lookup settling, and the three
  operations that change the identity.
\<close>

datatype event =
    Mount
  | GetSessionReply "Session option"
  | AuthStateChange "Session option"
  | PrivilegesReply priv_reply
  | SignIn "nat \<times> nat \<times> nat" "error option" string string
  | SignUp "nat \<times> nat \<times> nat" "error option" string string
  | SignOut "error option"

fun step :: "bool \<Rightarrow> auth_state \<Rightarrow> event \<Rightarrow> auth_state" where
  "step TEST_MODE st Mount = (if TEST_MODE then init_local st else st)"
| "step TEST_MODE st (GetSessionReply so) = (if TEST_MODE then st else on_getSession so st)"
| "step TEST_MODE st (AuthStateChange so) = (if TEST_MODE then st else on_authStateChange so st)"
| "step TEST_MODE st (PrivilegesReply r) = settle_privileges r st"
| "step TEST_MODE st (SignIn clock err e p) = snd (signIn TEST_MODE clock err e p st)"
| "step TEST_MODE st (SignUp clock err e p) = snd (signUp TEST_MODE clock err e p st)"
| "step TEST_MODE st (SignOut err) = snd (signOut TEST_MODE err st)"

definition run :: "bool \<Rightarrow> event list \<Rightarrow> auth_state \<Rightarrow> auth_state" where
  "run TEST_MODE evs st = foldl (step TEST_MODE) st evs"

text \<open>
  The invariant of the local-fallback mode: an identity never stands without a privilege
  set, and no lookup is in flight.
\<close>

definition paired :: "auth_state \<Rightarrow> bool" where
  "paired st = ((user st = None \<or> privileges st \<noteq> None) \<and> pending st = [])"

section \<open>The sidebar (the component Sidebar, second part of src/src/contexts/auth-context.tsx)\<close>

record NavItem =
  name :: string
  href :: string
  icon :: string
  privilegeKey :: "string option"

definition navItems :: "NavItem list" where
  "navItems =
     [ \<lparr> name = ''Dashboard'', href = ''/dashboard'', icon = ''Home'', privilegeKey = None \<rparr>,
       \<lparr> name = ''Add Expense'', href = ''/dashboard/expenses/add'', icon = ''TrendingDown'',
         privilegeKey = Some ''can_add_expense'' \<rparr>,
       \<lparr> name = ''Add Income'', href = ''/dashboard/income/add'', icon = ''TrendingUp'',
         privilegeKey = Some ''can_add_income'' \<rparr>,
       \<lparr> name = ''Reports & Analytics'', href = ''/dashboard/reports'', icon = ''BarChart2'',
         privilegeKey = Some ''can_view_reports'' \<rparr>,
       \<lparr> name = ''Upload Bills'', href = ''/dashboard/bills'', icon = ''Upload'',
         privilegeKey = Some ''can_upload_bills'' \<rparr>,
       \<lparr> name = ''Download Reports'', href = ''/dashboard/downloads'', icon = ''FileText'',
         privilegeKey = Some ''can_download_reports'' \<rparr> ]"

text \<open>
  \<^verbatim>\<open>!x\<close> for a value that is a string, null or undefined: true for null,
  undefined and the empty string.
\<close>

definition falsy :: "string option \<Rightarrow> bool" where
  "falsy v = (case v of None \<Rightarrow> True | Some s \<Rightarrow> s = [])"

text \<open>
  \<^verbatim>\<open>hasPrivilege\<close>: true without a key or without a privilege object; otherwise
  the value under the key must be the boolean true (\<^verbatim>\<open>=== true\<close>).
\<close>

definition hasPrivilege :: "UserPrivileges option \<Rightarrow> string option \<Rightarrow> bool" where
  "hasPrivilege privs key =
     (if falsy key \<or> privs = None then True
      else map_of (the privs) (the key) = Some (JBool True))"

text \<open>
  The body of \<^verbatim>\<open>navItems.map\<close>: null for an item without the privilege,
  otherwise the link with its \<^verbatim>\<open>isActive\<close> flag.
\<close>

definition render_item :: "string \<Rightarrow> UserPrivileges option \<Rightarrow> NavItem \<Rightarrow> (NavItem \<times> bool) option" where
  "render_item pathname privs item =
     (if \<not> hasPrivilege privs (privilegeKey item) then None
      else Some (item, pathname = href item))"

definition render_nav :: "string \<Rightarrow> UserPrivileges option \<Rightarrow> (NavItem \<times> bool) list" where
  "render_nav pathname privs = List.map_filter (render_item pathname privs) navItems"

section \<open>The route guard (src/src/components/protected-route.tsx)\<close>

datatype guard_output = Placeholder | Nothing | Children

text \<open>
  What one render of \<^verbatim>\<open>ProtectedRoute\<close> sees: the user and the loading flag of
  the auth context, and the router object (by a number that stands for its identity).
  These three are also the dependency array of its effect.
\<close>

record guard_props =
  guard_user :: "User option"
  guard_loading :: bool
  guard_router :: nat

definition ProtectedRoute :: "guard_props \<Rightarrow> guard_output" where
  "ProtectedRoute props =
     (if guard_loading props then Placeholder
      else if guard_user props = None then Nothing
      else Children)"

text \<open>The body of the effect: the list of paths it pushes to the router.\<close>

definition ProtectedRoute_effect :: "guard_props \<Rightarrow> string list" where
  "ProtectedRoute_effect props =
     (if \<not> guard_loading props \<and> guard_user props = None then [''/login''] else [])"

text \<open>
  A mounted guard over a sequence of renders. React runs the effect after the first
  render, and after a later render when one of the dependencies differs from its value
  at the render before. \<open>prev\<close> is the dependency array of the render before
  (\<open>None\<close> before the first). Dependencies are compared as values here; React compares
  the user object by reference, which can only run the effect more often while a user
  is present, where its body does nothing. An absent user is \<open>None\<close>, whether null
  or undefined (the provider sets null).
\<close>

fun guard_pushes :: "guard_props option \<Rightarrow> guard_props list \<Rightarrow> string list" where
  "guard_pushes prev [] = []"
| "guard_pushes prev (props # rest) =
     (if prev = Some props then [] else ProtectedRoute_effect props)
     @ guard_pushes (Some props) rest"

definition unauthorized :: "guard_props \<Rightarrow> bool" where
  "unauthorized props = (\<not> guard_loading props \<and> guard_user props = None)"

text \<open>
  The number of entries into the state unauthorized along a sequence of renders;
  \<open>was\<close> tells whether the render before was in that state.
\<close>

fun entries :: "bool \<Rightarrow> guard_props list \<Rightarrow> nat" where
  "entries was [] = 0"
| "entries was (props # rest) =
     (if unauthorized props \<and> \<not> was then 1 else 0) + entries (unauthorized props) rest"

section \<open>The add-expense page (src/unnamed/part_002, both versions)\<close>

text \<open>
  A value of an inserted row: a text, or the number that \<^verbatim>\<open>parseFloat\<close> reads
  from a text (the number itself is not needed here).
\<close>

datatype field = Text string | ParsedFloat string

datatype request = Insert string "(string \<times> field) list"

text \<open>
  The state of the page that \<^verbatim>\<open>handleSubmit\<close> reads and writes, with the
  requests sent to the remote service, the timers set, and the console.
  \<^verbatim>\<open>formData\<close> is an object whose keys \<^verbatim>\<open>handleChange\<close> sets by name.
\<close>

record page_state =
  formData :: "string \<rightharpoonup> string"
  loading_page :: bool
  success :: bool
  error :: string
  requests :: "request list"
  timers :: "(nat \<times> string) list"
  console_page :: "string list"

definition handleChange :: "string \<Rightarrow> string \<Rightarrow> page_state \<Rightarrow> page_state" where
  "handleChange fld v st = st\<lparr> formData := (formData st)(fld \<mapsto> v), error := [] \<rparr>"

text \<open>\<^verbatim>\<open>err.message || 'Failed to add expense'\<close>\<close>

definition message_or :: "error \<Rightarrow> string \<Rightarrow> string" where
  "message_or err dflt = (case err of Error m \<Rightarrow> if m = [] then dflt else m)"

text \<open>
  What follows the validation in both versions of \<^verbatim>\<open>handleSubmit\<close>: the request
  is sent; \<open>insert_error\<close> is the error of the reply (or the exception of the call).
\<close>

definition submit_row :: "request \<Rightarrow> error option \<Rightarrow> page_state \<Rightarrow> page_state" where
  "submit_row req insert_error st =
     (let st1 = st\<lparr> loading_page := True, error := [] \<rparr>;
          st2 = st1\<lparr> requests := requests st1 @ [req] \<rparr>;
          st3 = (case insert_error of
                   None \<Rightarrow> st2\<lparr> success := True,
                                timers := timers st2 @ [(2000, ''/dashboard'')] \<rparr>
                 | Some err \<Rightarrow> st2\<lparr> console_page := console_page st2 @ [''Error adding expense:''],
                                    error := message_or err ''Failed to add expense'' \<rparr>)
      in st3\<lparr> loading_page := False \<rparr>)"

text \<open>
  \<^verbatim>\<open>handleSubmit\<close> of the page that writes the table \<^verbatim>\<open>Transaction\<close>
  (the user comes from the auth context, \<^verbatim>\<open>personId\<close> from the page). The
  call \<^verbatim>\<open>e.preventDefault()\<close> that opens it acts on the event only.
\<close>

definition handleSubmit :: "User option \<Rightarrow> string option \<Rightarrow> error option \<Rightarrow> page_state \<Rightarrow> page_state" where
  "handleSubmit usr personId insert_error st =
     (if usr = None \<or> falsy personId then
        st\<lparr> error := ''You must be logged in to add expenses'' \<rparr>
      else if falsy (formData st ''amount'') \<or> falsy (formData st ''typeId'')
              \<or> falsy (formData st ''date'') then
        st\<lparr> error := ''Please fill in all required fields'' \<rparr>
      else
        submit_row
          (Insert ''Transaction''
             [ (''TransID'', Text (the (formData st ''typeId''))),
               (''PersonID'', Text (the personId)),
               (''Amount'', ParsedFloat (the (formData st ''amount''))),
               (''TransactionDate'', Text (the (formData st ''date''))) ])
          insert_error st)"

text \<open>
  \<^verbatim>\<open>handleSubmit\<close> of the other version of the page, which writes the table
  \<^verbatim>\<open>expenses\<close> and has a category instead of a type. A description that was
  never set is left out of the row.
\<close>

definition handleSubmit_expenses :: "User option \<Rightarrow> error option \<Rightarrow> page_state \<Rightarrow> page_state" where
  "handleSubmit_expenses usr insert_error st =
     (if usr = None then
        st\<lparr> error := ''You must be logged in to add expenses'' \<rparr>
      else if falsy (formData st ''amount'') \<or> falsy (formData st ''category'')
              \<or> falsy (formData st ''date'') then
        st\<lparr> error := ''Please fill in all required fields'' \<rparr>
      else
        submit_row
          (Insert ''expenses''
             ([ (''user_id'', Text (id' (the usr))),
                (''amount'', ParsedFloat (the (formData st ''amount''))),
                (''category'', Text (the (formData st ''category''))) ]
              @ (case formData st ''description'' of
                   None \<Rightarrow> []
                 | Some d \<Rightarrow> [(''description'', Text d)])
              @ [ (''date'', Text (the (formData st ''date''))) ]))
          insert_error st)"

section \<open>The dashboard page (src/unnamed/part_000)\<close>






text \<open>
  What awaiting a query gives: the fields \<^verbatim>\<open>data\<close> and \<^verbatim>\<open>error\<close>
  of the reply, or an exception.
\<close>

datatype 'a reply = Reply "'a option" "error option" | Rejected error











section \<open>Example inputs\<close>

text \<open>The form with the amount empty, a type and a category chosen and a date set.\<close>

definition form_amount_empty :: page_state where
  "form_amount_empty =
     \<lparr> formData = [''amount'' \<mapsto> [], ''typeId'' \<mapsto> ''type-1'', ''category'' \<mapsto> ''Housing'',
                    ''description'' \<mapsto> [], ''date'' \<mapsto> ''2025-11-11''],
       loading_page = False, success = False, error = [], requests = [], timers = [],
       console_page = [] \<rparr>"







section \<open>Properties\<close>

subsection \<open>signIn, signOut and fetchPrivileges\<close>

text \<open>
  C4. In fallback mode, signing in with test@example.com / password123 succeeds from
  every state and at every reading of the clock: the identity has id test-user-id-12345
  and email test@example.com, the privilege set is the record with all five permissions
  true, and local storage holds under the one key test_auth the serialized pair of that
  identity and the session, every other key being as before. A repeated call yields the
  same identity id.
\<close>

theorem signIn_designated_credentials:
  "signIn True (t1, t2, t3) err ''test@example.com'' ''password123'' st =
     (Inr (), st\<lparr> user := Some (createMockUser t1),
                    session := Some (createMockSession t2 t3),
                    privileges := Some all_privileges,
                    localStorage := (localStorage st)(''test_auth'' \<mapsto>
                       Serialized (Some (createMockUser t1)) (Some (createMockSession t2 t3))) \<rparr>)
   \<and> id' (createMockUser t1) = ''test-user-id-12345''
   \<and> email (createMockUser t1) = ''test@example.com''
   \<and> all_privileges =
        [(''can_add_expense'', JBool True), (''can_add_income'', JBool True),
         (''can_view_reports'', JBool True), (''can_upload_bills'', JBool True),
         (''can_download_reports'', JBool True)]
   \<and> map_option id' (user (snd (signIn True clock2 err2 ''test@example.com'' ''password123''
          (snd (signIn True (t1, t2, t3) err ''test@example.com'' ''password123'' st)))))
       = Some ''test-user-id-12345''"
  by (simp add: signIn_def TEST_USER_email_def TEST_USER_password_def createMockUser_def
      all_privileges_def Let_def)

text \<open>
  C5. In fallback mode, every credential pair other than test@example.com / password123
  makes signIn fail with the error whose message is exactly "Invalid test credentials.
  Use test@example.com / password123"; the whole state (user, session, privileges,
  loading, local storage) is the one before the call.
\<close>

theorem signIn_other_credentials:
  "(email_in, password_in) \<noteq> (''test@example.com'', ''password123'') \<Longrightarrow>
   signIn True clock err email_in password_in st =
     (Inl (Error ''Invalid test credentials. Use test@example.com / password123''), st)"
  by (auto simp add: signIn_def TEST_USER_email_def TEST_USER_password_def)

theorem signIn_other_credentials_witness:
  "signIn True (1, 2, 3) None ''x@y.com'' ''wrong'' (initial_state Map.empty) =
     (Inl (Error ''Invalid test credentials. Use test@example.com / password123''),
      initial_state Map.empty)"
  using signIn_other_credentials [of "''x@y.com''" "''wrong''" "(1, 2, 3)" None "initial_state Map.empty"]
  by simp

text \<open>
  C6, as the claim states it, fails in delegated mode: there signOut rethrows the error
  of the remote reply, from a signed-out state and from a signed-in one alike.
\<close>

theorem signOut_delegated_can_fail:
  "fst (signOut False (Some (Error ''network request failed'')) (initial_state Map.empty))
     = Inl (Error ''network request failed'')
   \<and> fst (signOut False (Some (Error ''network request failed''))
          (on_getSession (Some (createMockSession 0 0)) (initial_state Map.empty)))
     = Inl (Error ''network request failed'')"
  by (simp add: signOut_def)

text \<open>
  C6 (amended). In local-fallback mode signOut never fails, clears user, session and
  privileges, removes the stored record, is the identity on a state that is already
  signed out, and a second call leaves the state of the first. In delegated mode signOut
  leaves the state to the auth-state listener: it returns normally when the remote reply
  has no error and fails with that error otherwise, the state unchanged in both cases.
\<close>

theorem signOut_modes:
  "fst (signOut True err st) = Inr ()
   \<and> snd (signOut True err2 (snd (signOut True err st))) = snd (signOut True err st)
   \<and> localStorage (snd (signOut True err st)) ''test_auth'' = None
   \<and> user (snd (signOut True err st)) = None
   \<and> session (snd (signOut True err st)) = None
   \<and> privileges (snd (signOut True err st)) = None
   \<and> (user st = None \<and> session st = None \<and> privileges st = None
        \<and> localStorage st ''test_auth'' = None \<longrightarrow> snd (signOut True err st) = st)
   \<and> signOut False None st = (Inr (), st)
   \<and> signOut False (Some e) st = (Inl e, st)"
  by (auto simp add: signOut_def fun_upd_idem)

theorem signOut_modes_witness:
  "signOut True None (snd (signOut True None
      (snd (signIn True (1, 2, 3) None ''test@example.com'' ''password123'' (initial_state Map.empty)))))
   = (Inr (), snd (signOut True None
      (snd (signIn True (1, 2, 3) None ''test@example.com'' ''password123'' (initial_state Map.empty)))))"
  using signOut_modes [of None "snd (signOut True None
      (snd (signIn True (1, 2, 3) None ''test@example.com'' ''password123'' (initial_state Map.empty))))" None]
  by (simp add: signOut_def prod_eq_iff)

text \<open>
  C2, as the claim states it, fails for a lookup that throws: the catch block sets the
  privilege set to null, not to the default record.
\<close>

theorem fetchPrivileges_thrown_counterexample:
  "privileges (snd (fetchPrivileges ''u1'' (\<lambda>_. Thrown (Error ''Failed to fetch'')) (initial_state Map.empty))) = None
   \<and> privileges (snd (fetchPrivileges ''u1'' (\<lambda>_. Thrown (Error ''Failed to fetch'')) (initial_state Map.empty)))
       \<noteq> Some all_privileges"
  by (simp add: fetchPrivileges_def)

text \<open>
  C2 (amended). For every user id and every reply of the lookup, fetchPrivileges returns
  normally (no error reaches the caller). When the record is absent (the reply of
  \<^verbatim>\<open>.single()\<close> for no row) or the reply carries an error, the error is logged
  to the console and the privilege set becomes the default record with all five
  permissions true. When the lookup throws, the exception is logged to the console and
  the privilege set becomes null. A row that is found is stored as it is and nothing is
  logged. User, session, loading flag and local storage are never touched.
\<close>

theorem fetchPrivileges_absorbs:
  "fst (fetchPrivileges userId lookup st) = Inr ()
   \<and> (lookup userId = single [] \<longrightarrow>
        privileges (snd (fetchPrivileges userId lookup st)) = Some all_privileges)
   \<and> (lookup userId = Failed e \<longrightarrow>
        privileges (snd (fetchPrivileges userId lookup st)) = Some all_privileges
        \<and> console (snd (fetchPrivileges userId lookup st))
            = console st @ [''Error fetching privileges:''])
   \<and> (lookup userId = Thrown e \<longrightarrow>
        privileges (snd (fetchPrivileges userId lookup st)) = None
        \<and> console (snd (fetchPrivileges userId lookup st))
            = console st @ [''Error in fetchPrivileges:''])
   \<and> (lookup userId = Row data \<longrightarrow>
        privileges (snd (fetchPrivileges userId lookup st)) = Some data
        \<and> console (snd (fetchPrivileges userId lookup st)) = console st)
   \<and> user (snd (fetchPrivileges userId lookup st)) = user st
   \<and> session (snd (fetchPrivileges userId lookup st)) = session st
   \<and> loading (snd (fetchPrivileges userId lookup st)) = loading st
   \<and> localStorage (snd (fetchPrivileges userId lookup st)) = localStorage st"
  by (simp add: fetchPrivileges_def single_def split: priv_reply.splits)

theorem fetchPrivileges_absorbs_witness:
  "fetchPrivileges ''u1'' (\<lambda>_. single []) (initial_state Map.empty) =
     (Inr (), (initial_state Map.empty)
        \<lparr> console := [''Error fetching privileges:''], privileges := Some all_privileges \<rparr>)
   \<and> fetchPrivileges ''u1'' (\<lambda>_. Thrown (Error ''Failed to fetch'')) (initial_state Map.empty) =
     (Inr (), (initial_state Map.empty)
        \<lparr> console := [''Error in fetchPrivileges:''], privileges := None \<rparr>)"
  using fetchPrivileges_absorbs [of "''u1''" "\<lambda>_. single []" "initial_state Map.empty"]
    fetchPrivileges_absorbs [where userId = "''u1''"
      and lookup = "\<lambda>_. Thrown (Error ''Failed to fetch'')"
      and st = "initial_state Map.empty" and e = "Error ''Failed to fetch''"]
  by (simp add: fetchPrivileges_def single_def initial_state_def)

subsection \<open>The sidebar\<close>

text \<open>
  C3, as the claim states it, fails: with a privilege record that has no value under
  the key, \<^verbatim>\<open>privileges[key] === true\<close> is false and the entry is hidden.
\<close>

theorem hasPrivilege_absent_key_counterexample:
  "map_of [(''can_add_income'', JBool True)] ''can_add_expense'' = None
   \<and> hasPrivilege (Some [(''can_add_income'', JBool True)]) (Some ''can_add_expense'') = False"
  by (simp add: hasPrivilege_def falsy_def)

text \<open>
  C3 (amended). For every resolved (non-null) privilege record and every navigation
  entry whose privilege key is absent from that record, hasPrivilege returns false: the
  entry is hidden.
\<close>

theorem hasPrivilege_absent_key:
  "key \<noteq> [] \<Longrightarrow> map_of p key = None \<Longrightarrow> hasPrivilege (Some p) (Some key) = False"
  by (simp add: hasPrivilege_def falsy_def)

theorem hasPrivilege_absent_key_witness:
  "hasPrivilege (Some []) (Some ''can_view_reports'') = False"
  using hasPrivilege_absent_key [of "''can_view_reports''" "[]"] by simp

lemma render_nav_fst:
  "map fst (List.map_filter (render_item pathname privs) xs) =
   filter (\<lambda>item. hasPrivilege privs (privilegeKey item)) xs"
  by (induction xs) (simp_all add: render_item_def)

lemma render_nav_flag:
  "(item, active) \<in> set (List.map_filter (render_item pathname privs) xs) \<Longrightarrow>
   active = (pathname = href item)"
  by (induction xs) (auto simp add: render_item_def split: if_splits)

lemma render_nav_active_le:
  "length (filter snd (List.map_filter (render_item pathname privs) xs)) \<le>
   length (filter (\<lambda>item. href item = pathname) xs)"
  by (induction xs) (auto simp add: render_item_def)

lemma distinct_filter_eq_le:
  "distinct (map f xs) \<Longrightarrow> length (filter (\<lambda>x. f x = a) xs) \<le> 1"
proof (induction xs)
  case Nil
  then show ?case by simp
next
  case (Cons x xs)
  show ?case
  proof (cases "f x = a")
    case True
    from Cons.prems have "f x \<notin> f ` set xs" by simp
    then have "\<forall>y \<in> set xs. f y \<noteq> f x" by (metis imageI)
    with True have "\<forall>y \<in> set xs. f y \<noteq> a" by simp
    then have "filter (\<lambda>x. f x = a) xs = []" by (simp add: filter_empty_conv)
    with True show ?thesis by simp
  next
    case False
    with Cons show ?thesis by simp
  qed
qed

lemma navItems_href_distinct: "distinct (map href navItems)"
  by (simp add: navItems_def)

lemma navItems_href_once: "length (filter (\<lambda>item. href item = pathname) navItems) \<le> 1"
  using navItems_href_distinct by (rule distinct_filter_eq_le)

lemma navItems_keys_nonempty: "\<forall>item \<in> set navItems. privilegeKey item \<noteq> Some []"
  by (simp add: navItems_def)

text \<open>
  C7. Visibility depends on the privilege set and the entry's key only: an entry without
  a key is visible; with a null privilege set every entry is visible; with a privilege
  record, an entry with a key is visible iff the record has the boolean true under that
  key. The rendered entries are the visible ones in order; each is marked active iff
  its href is the current path, and at most one rendered entry is active.
\<close>

theorem navigation_visibility:
  "hasPrivilege privs None
   \<and> hasPrivilege None key
   \<and> (\<forall>item \<in> set navItems. \<forall>k. privilegeKey item = Some k \<longrightarrow>
        hasPrivilege (Some p) (privilegeKey item) = (map_of p k = Some (JBool True)))
   \<and> (k \<noteq> [] \<longrightarrow> hasPrivilege (Some p) (Some k) = (map_of p k = Some (JBool True)))
   \<and> map fst (render_nav pathname privs) =
        filter (\<lambda>item. hasPrivilege privs (privilegeKey item)) navItems
   \<and> (\<forall>(item, active) \<in> set (render_nav pathname privs). active = (pathname = href item))
   \<and> length (filter snd (render_nav pathname privs)) \<le> 1"
proof -
  have a: "hasPrivilege privs None" "hasPrivilege None key"
    by (simp_all add: hasPrivilege_def falsy_def)
  have c: "k \<noteq> [] \<longrightarrow> hasPrivilege (Some p) (Some k) = (map_of p k = Some (JBool True))" for k
    by (simp add: hasPrivilege_def falsy_def)
  have b: "\<forall>item \<in> set navItems. \<forall>k. privilegeKey item = Some k \<longrightarrow>
        hasPrivilege (Some p) (privilegeKey item) = (map_of p k = Some (JBool True))"
    using navItems_keys_nonempty c by auto
  have d: "map fst (render_nav pathname privs) =
        filter (\<lambda>item. hasPrivilege privs (privilegeKey item)) navItems"
    by (simp add: render_nav_def render_nav_fst)
  have e: "\<forall>(item, active) \<in> set (render_nav pathname privs). active = (pathname = href item)"
  proof (clarify)
    fix item active
    assume "(item, active) \<in> set (render_nav pathname privs)"
    then show "active = (pathname = href item)"
      unfolding render_nav_def by (rule render_nav_flag)
  qed
  have f: "length (filter snd (render_nav pathname privs)) \<le> 1"
    unfolding render_nav_def
    using render_nav_active_le [of pathname privs navItems] navItems_href_once [of pathname]
    by linarith
  from a b c d e f show ?thesis by blast
qed

theorem navigation_visibility_witness:
  "map (\<lambda>(item, active). (name item, active)) (render_nav ''/dashboard/reports''
      (Some [(''can_add_expense'', JBool False), (''can_view_reports'', JBool True)])) =
     [(''Dashboard'', False), (''Reports & Analytics'', True)]"
  using navigation_visibility [of "Some [(''can_add_expense'', JBool False), (''can_view_reports'', JBool True)]"
     None "[(''can_add_expense'', JBool False), (''can_view_reports'', JBool True)]"
     "''can_view_reports''" "''/dashboard/reports''"]
  by (simp add: render_nav_def navItems_def render_item_def hasPrivilege_def falsy_def)

subsection \<open>The provider over time\<close>

lemma step_local_paired: "paired st \<Longrightarrow> paired (step True st ev)"
  by (cases ev)
     (auto simp add: paired_def init_local_def settle_privileges_def signIn_def signUp_def
        signOut_def Let_def split: option.splits stored.splits)

lemma foldl_local_paired: "paired st \<Longrightarrow> paired (foldl (step True) st evs)"
  by (induction evs arbitrary: st) (simp_all add: step_local_paired)

lemma initial_paired: "paired (initial_state ls)"
  by (simp add: paired_def initial_state_def)

text \<open>
  C1, as the claim states it, fails in delegated mode: the callback of getSession sets
  the user, starts the privilege lookup without awaiting it and sets loading to false,
  so the state after it has a user, loading false and a null privilege set.
\<close>

theorem delegated_loading_before_privileges_counterexample:
  "user (run False [Mount, GetSessionReply (Some (createMockSession 0 0))] (initial_state Map.empty)) \<noteq> None
   \<and> loading (run False [Mount, GetSessionReply (Some (createMockSession 0 0))] (initial_state Map.empty)) = False
   \<and> privileges (run False [Mount, GetSessionReply (Some (createMockSession 0 0))] (initial_state Map.empty)) = None"
  by (simp add: run_def on_getSession_def session_user_def start_fetchPrivileges_def
        initial_state_def Let_def)

text \<open>
  C1 (amended). In local-fallback mode, in every state reached from the initial one by
  the mount effect and signIn, signUp and signOut in any order, a non-null user has a
  non-null privilege set (whatever the loading flag is). In delegated mode, the
  callbacks of getSession and of the auth-state listener, given a session, set the user
  first, then start the privilege lookup for that user's id, and set loading to false
  without waiting for it: the privilege set is still what it was before. It becomes
  non-null when the lookup settles with a row or with an error in the reply.
\<close>

theorem identity_then_privileges:
  "(user (run True evs (initial_state ls)) \<noteq> None \<longrightarrow>
      privileges (run True evs (initial_state ls)) \<noteq> None)
   \<and> user (on_getSession (Some s) st) = Some (user' s)
   \<and> loading (on_getSession (Some s) st) = False
   \<and> privileges (on_getSession (Some s) st) = privileges st
   \<and> pending (on_getSession (Some s) st) = pending st @ [id' (user' s)]
   \<and> user (on_authStateChange (Some s) st) = Some (user' s)
   \<and> loading (on_authStateChange (Some s) st) = False
   \<and> privileges (on_authStateChange (Some s) st) = privileges st
   \<and> pending (on_authStateChange (Some s) st) = pending st @ [id' (user' s)]
   \<and> (pending st2 = uid # rest \<and> (reply = Row data \<or> reply = Failed e) \<longrightarrow>
        privileges (settle_privileges reply st2) \<noteq> None
        \<and> user (settle_privileges reply st2) = user st2
        \<and> loading (settle_privileges reply st2) = loading st2)"
proof -
  have "paired (run True evs (initial_state ls))"
    unfolding run_def using initial_paired by (rule foldl_local_paired)
  then have l: "user (run True evs (initial_state ls)) \<noteq> None \<longrightarrow>
      privileges (run True evs (initial_state ls)) \<noteq> None"
    by (auto simp add: paired_def)
  have g: "user (on_getSession (Some s) st) = Some (user' s)"
    "loading (on_getSession (Some s) st) = False"
    "privileges (on_getSession (Some s) st) = privileges st"
    "pending (on_getSession (Some s) st) = pending st @ [id' (user' s)]"
    by (simp_all add: on_getSession_def session_user_def start_fetchPrivileges_def Let_def)
  have a: "user (on_authStateChange (Some s) st) = Some (user' s)"
    "loading (on_authStateChange (Some s) st) = False"
    "privileges (on_authStateChange (Some s) st) = privileges st"
    "pending (on_authStateChange (Some s) st) = pending st @ [id' (user' s)]"
    by (simp_all add: on_authStateChange_def session_user_def start_fetchPrivileges_def Let_def)
  have p: "pending st2 = uid # rest \<and> (reply = Row data \<or> reply = Failed e) \<longrightarrow>
        privileges (settle_privileges reply st2) \<noteq> None
        \<and> user (settle_privileges reply st2) = user st2
        \<and> loading (settle_privileges reply st2) = loading st2"
    by (auto simp add: settle_privileges_def fetchPrivileges_def)
  from l g a p show ?thesis by blast
qed

theorem identity_then_privileges_witness:
  "user (run True [Mount, SignIn (1, 2, 3) None ''test@example.com'' ''password123''] (initial_state Map.empty))
     = Some (createMockUser 1)
   \<and> privileges (run True [Mount, SignIn (1, 2, 3) None ''test@example.com'' ''password123''] (initial_state Map.empty))
     = Some all_privileges
   \<and> privileges (settle_privileges (Failed (Error ''no rows''))
        (on_getSession (Some (createMockSession 2 3)) (initial_state Map.empty))) = Some all_privileges"
  using identity_then_privileges [where evs = "[Mount, SignIn (1, 2, 3) None ''test@example.com'' ''password123'']"
     and ls = Map.empty and s = "createMockSession 2 3" and st = "initial_state Map.empty"
     and ?st2.0 = "on_getSession (Some (createMockSession 2 3)) (initial_state Map.empty)"
     and uid = "''test-user-id-12345''" and rest = "[]" and reply = "Failed (Error ''no rows'')"
     and e = "Error ''no rows''"]
  by (simp add: run_def init_local_def signIn_def TEST_USER_email_def TEST_USER_password_def
       initial_state_def Let_def settle_privileges_def fetchPrivileges_def on_getSession_def
       session_user_def start_fetchPrivileges_def createMockSession_def createMockUser_def)

subsection \<open>The add-expense page\<close>

text \<open>
  C8, as the claim states it, fails when the Person id of the page is not resolved yet:
  the first check of the handler answers with the message about being logged in, also
  for an empty amount.
\<close>

theorem handleSubmit_person_unresolved_counterexample:
  "formData form_amount_empty ''amount'' = Some []
   \<and> error (handleSubmit (Some (createMockUser 0)) None None form_amount_empty)
       = ''You must be logged in to add expenses''
   \<and> error (handleSubmit (Some (createMockUser 0)) None None form_amount_empty)
       \<noteq> ''Please fill in all required fields''"
  by (simp add: handleSubmit_def falsy_def form_amount_empty_def)

text \<open>
  C8 (amended). For every add-expense submission by a signed-in user (and, in the version
  that writes Transaction, with the Person id resolved) where the amount, the type (the
  category in the other version) or the date is empty, the submit handler sets the error
  string to exactly "Please fill in all required fields", sends no request, and leaves
  the form data and every other field of the page as they were.
\<close>

theorem handleSubmit_required_fields:
  "falsy (formData st ''amount'') \<or> falsy (formData st ''typeId'') \<or> falsy (formData st ''date'') \<Longrightarrow>
   usr \<noteq> None \<Longrightarrow> \<not> falsy personId \<Longrightarrow>
   falsy (formData st2 ''amount'') \<or> falsy (formData st2 ''category'') \<or> falsy (formData st2 ''date'') \<Longrightarrow>
   handleSubmit usr personId insert_error st = st\<lparr> error := ''Please fill in all required fields'' \<rparr>
   \<and> requests (handleSubmit usr personId insert_error st) = requests st
   \<and> formData (handleSubmit usr personId insert_error st) = formData st
   \<and> handleSubmit_expenses usr insert_error st2 = st2\<lparr> error := ''Please fill in all required fields'' \<rparr>
   \<and> requests (handleSubmit_expenses usr insert_error st2) = requests st2
   \<and> formData (handleSubmit_expenses usr insert_error st2) = formData st2"
  by (simp add: handleSubmit_def handleSubmit_expenses_def)

theorem handleSubmit_required_fields_witness:
  "handleSubmit (Some (createMockUser 0)) (Some ''person-1'') None form_amount_empty
     = form_amount_empty\<lparr> error := ''Please fill in all required fields'' \<rparr>
   \<and> requests (handleSubmit (Some (createMockUser 0)) (Some ''person-1'') None form_amount_empty) = []
   \<and> handleSubmit_expenses (Some (createMockUser 0)) None form_amount_empty
     = form_amount_empty\<lparr> error := ''Please fill in all required fields'' \<rparr>"
  using handleSubmit_required_fields [of form_amount_empty "Some (createMockUser 0)"
      "Some ''person-1''" form_amount_empty None]
  by (simp add: falsy_def form_amount_empty_def)

subsection \<open>The route guard\<close>

lemma guard_pushes_entries:
  "\<forall>p \<in> set rs. guard_router p = guard_router q \<Longrightarrow>
   guard_pushes (Some q) rs = replicate (entries (unauthorized q) rs) ''/login''"
proof (induction rs arbitrary: q)
  case Nil
  then show ?case by simp
next
  case (Cons p rs)
  have same: "unauthorized p \<Longrightarrow> unauthorized q \<Longrightarrow> p = q"
    using Cons.prems by (simp add: unauthorized_def)
  have ih: "guard_pushes (Some p) rs = replicate (entries (unauthorized p) rs) ''/login''"
    using Cons.prems by (intro Cons.IH) simp
  show ?case
  proof (cases "q = p")
    case True
    with ih show ?thesis by simp
  next
    case False
    with same have "\<not> (unauthorized p \<and> unauthorized q)" by auto
    with False ih show ?thesis
      by (auto simp add: ProtectedRoute_effect_def unauthorized_def)
  qed
qed

text \<open>
  C9. A render with loading true gives the placeholder and its effect pushes nothing; a
  render with loading false and no user gives nothing of the children and its effect
  pushes /login; a render with loading false and a user gives the children and its
  effect pushes nothing. Over any sequence of renders of a mounted guard with one and
  the same router object, the pushes are one /login for each entry into the state
  (loading false, no user): none while the guard stays in that state.
\<close>

theorem guard_three_states:
  assumes "\<forall>p \<in> set rs. guard_router p = r"
  shows "(guard_loading props \<longrightarrow>
            ProtectedRoute props = Placeholder \<and> ProtectedRoute_effect props = [])
       \<and> (\<not> guard_loading props \<and> guard_user props = None \<longrightarrow>
            ProtectedRoute props = Nothing \<and> ProtectedRoute_effect props = [''/login''])
       \<and> (\<not> guard_loading props \<and> guard_user props \<noteq> None \<longrightarrow>
            ProtectedRoute props = Children \<and> ProtectedRoute_effect props = [])
       \<and> guard_pushes None rs = replicate (entries False rs) ''/login''"
proof -
  have one: "guard_pushes None rs = replicate (entries False rs) ''/login''"
  proof (cases rs)
    case Nil
    then show ?thesis by simp
  next
    case (Cons p ps)
    from assms Cons have "\<forall>x \<in> set ps. guard_router x = guard_router p" by simp
    then have "guard_pushes (Some p) ps = replicate (entries (unauthorized p) ps) ''/login''"
      by (rule guard_pushes_entries)
    with Cons show ?thesis
      by (simp add: ProtectedRoute_effect_def unauthorized_def)
  qed
  then show ?thesis
    by (simp add: ProtectedRoute_def ProtectedRoute_effect_def)
qed

theorem guard_three_states_witness:
  "guard_pushes None
     [ \<lparr> guard_user = None, guard_loading = True, guard_router = 7 \<rparr>,
       \<lparr> guard_user = None, guard_loading = False, guard_router = 7 \<rparr>,
       \<lparr> guard_user = None, guard_loading = False, guard_router = 7 \<rparr>,
       \<lparr> guard_user = Some (createMockUser 0), guard_loading = False, guard_router = 7 \<rparr>,
       \<lparr> guard_user = None, guard_loading = False, guard_router = 7 \<rparr>,
       \<lparr> guard_user = None, guard_loading = False, guard_router = 7 \<rparr> ]
   = [''/login'', ''/login'']
   \<and> ProtectedRoute \<lparr> guard_user = None, guard_loading = False, guard_router = 7 \<rparr> = Nothing"
  using guard_three_states [of
     "[ \<lparr> guard_user = None, guard_loading = True, guard_router = 7 \<rparr>,
       \<lparr> guard_user = None, guard_loading = False, guard_router = 7 \<rparr>,
       \<lparr> guard_user = None, guard_loading = False, guard_router = 7 \<rparr>,
       \<lparr> guard_user = Some (createMockUser 0), guard_loading = False, guard_router = 7 \<rparr>,
       \<lparr> guard_user = None, guard_loading = False, guard_router = 7 \<rparr>,
       \<lparr> guard_user = None, guard_loading = False, guard_router = 7 \<rparr> ]" 7
     "\<lparr> guard_user = None, guard_loading = False, guard_router = 7 \<rparr>"]
  by (simp add: unauthorized_def ProtectedRoute_def ProtectedRoute_effect_def)

subsection \<open>The dashboard\<close>







end
